theory Spec2Isabelle
  imports Complex_Main
begin

section \<open>Python text\<close>

text \<open>
  A Python \<open>str\<close> is a sequence of code points. The model represents a string as a
  \<^typ>\<open>string\<close> whose characters are the code points U+0000 to U+00FF (Latin-1), which
  covers every literal of the source (the Portuguese messages included). Text with
  code points above U+00FF is outside the model.

  The three character classes the source relies on, restricted to that range:
  \<^item> \<open>str.strip\<close> removes the characters for which \<open>str.isspace\<close> holds;
  \<^item> the regular-expression class \<open>\d\<close> and \<open>int\<close> accept the decimal digits
    (Unicode category Nd), here \<open>0\<close> to \<open>9\<close>;
  \<^item> \<open>str.isdigit\<close> accepts, besides the decimal digits, the superscript digits
    U+00B2, U+00B3 and U+00B9.
\<close>

definition is_space :: "char \<Rightarrow> bool" where
  "is_space c \<longleftrightarrow> c \<in> set [CHR 0x09, CHR 0x0A, CHR 0x0B, CHR 0x0C, CHR 0x0D,
                            CHR 0x1C, CHR 0x1D, CHR 0x1E, CHR 0x1F, CHR 0x20,
                            CHR 0x85, CHR 0xA0]"

definition is_decimal :: "char \<Rightarrow> bool" where
  "is_decimal c \<longleftrightarrow> c \<in> set ''0123456789''"

definition is_digit :: "char \<Rightarrow> bool" where
  "is_digit c \<longleftrightarrow> is_decimal c \<or> c \<in> set [CHR 0xB2, CHR 0xB3, CHR 0xB9]"

text \<open>\<open>s.strip()\<close>, \<open>s.lstrip(chars)\<close> and \<open>s.isdigit()\<close>.\<close>

definition py_strip :: "string \<Rightarrow> string" where
  "py_strip s = rev (dropWhile is_space (rev (dropWhile is_space s)))"

definition py_lstrip_chars :: "string \<Rightarrow> string \<Rightarrow> string" where
  "py_lstrip_chars chars s = dropWhile (\<lambda>c. c \<in> set chars) s"

definition py_isdigit :: "string \<Rightarrow> bool" where
  "py_isdigit s \<longleftrightarrow> s \<noteq> [] \<and> list_all is_digit s"

text \<open>\<open>s.split(sep)\<close> for a one-character separator: the fields between separators,
  empty fields kept.\<close>

fun py_split :: "char \<Rightarrow> string \<Rightarrow> string list" where
  "py_split sep [] = [[]]"
| "py_split sep (c # cs) =
     (if c = sep then [] # py_split sep cs
      else (case py_split sep cs of
              [] \<Rightarrow> [[c]]
            | w # ws \<Rightarrow> (c # w) # ws))"

text \<open>Decimal notation: the value of a string of decimal digits, and \<open>str(n)\<close> for an
  integer.\<close>

definition digit_value :: "char \<Rightarrow> int" where
  "digit_value c = int (of_char c) - 48"

definition dec_value :: "string \<Rightarrow> int" where
  "dec_value s = foldl (\<lambda>acc c. 10 * acc + digit_value c) 0 s"

definition digit_char :: "nat \<Rightarrow> char" where
  "digit_char d = char_of (48 + d)"

fun str_nat :: "nat \<Rightarrow> string" where
  "str_nat n = (if n < 10 then [digit_char n] else str_nat (n div 10) @ [digit_char (n mod 10)])"

declare str_nat.simps [simp del]

definition str_int :: "int \<Rightarrow> string" where
  "str_int i = (if i < 0 then CHR ''-'' # str_nat (nat (- i)) else str_nat (nat i))"

section \<open>Values, exceptions and results\<close>

text \<open>
  The values that travel through the program are the ones \<open>json\<close> decodes to:
  \<open>None\<close>, booleans, integers, floats, strings, lists and dictionaries with string keys.
  A dictionary is an association list with distinct keys, in insertion order. A float
  is represented by the rational number it denotes (\<open>nan\<close> and the infinities are
  outside the model).
\<close>

datatype json =
    JNull
  | JBool bool
  | JInt int
  | JFloat rat
  | JStr string
  | JArr "json list"
  | JObj "(string \<times> json) list"

text \<open>
  An exception is recorded with the operation that raised it and its operand rather than
  with its message. \<open>LibraryError\<close> is an exception raised inside \<open>requests\<close>,
  \<open>urllib\<close> or \<open>json\<close>: the flag says whether it is a
  \<open>requests.exceptions.RequestException\<close>, the string is \<open>str(e)\<close>.
\<close>

datatype exn =
    ValueError string
  | TypeError string json
  | AttributeError string json
  | KeyError json
  | IndexError json
  | JSONDecodeError string
  | LibraryError bool string

datatype 'a res = Returns 'a | Raises exn

definition bind_res :: "'a res \<Rightarrow> ('a \<Rightarrow> 'b res) \<Rightarrow> 'b res" where
  "bind_res r f = (case r of Raises e \<Rightarrow> Raises e | Returns x \<Rightarrow> f x)"

definition map_res :: "('a \<Rightarrow> 'b) \<Rightarrow> 'a res \<Rightarrow> 'b res" where
  "map_res f r = (case r of Raises e \<Rightarrow> Raises e | Returns x \<Rightarrow> Returns (f x))"

text \<open>
  \<open>int(s)\<close> on a string. The whitespace that \<open>int\<close> drops around the number is not the
  whitespace of \<open>str.strip\<close>: the separators U+001C to U+001F are kept and make the
  literal invalid. One sign is allowed, and the rest is decimal digits in groups
  separated by single underscores. CPython refuses a literal with more digits than
  \<open>sys.get_int_max_str_digits()\<close>, 4300 unless reconfigured; the model fixes that
  default. Signs, underscores and whitespace do not count as digits. In each of these
  cases \<open>int\<close> raises \<open>ValueError\<close>.
\<close>

definition is_int_space :: "char \<Rightarrow> bool" where
  "is_int_space c \<longleftrightarrow> c \<in> set [CHR 0x09, CHR 0x0A, CHR 0x0B, CHR 0x0C, CHR 0x0D, CHR 0x20,
                                CHR 0x85, CHR 0xA0]"

definition int_strip :: "string \<Rightarrow> string" where
  "int_strip s = rev (dropWhile is_int_space (rev (dropWhile is_int_space s)))"

definition int_max_str_digits :: nat where
  "int_max_str_digits = 4300"

definition valid_int_body :: "string \<Rightarrow> bool" where
  "valid_int_body b \<longleftrightarrow>
     list_all (\<lambda>g. g \<noteq> [] \<and> list_all is_decimal g) (py_split (CHR ''_'') b)"

definition py_int :: "string \<Rightarrow> int res" where
  "py_int s =
     (let t = int_strip s;
          neg = (t \<noteq> [] \<and> hd t = CHR ''-'');
          body = (if t \<noteq> [] \<and> (hd t = CHR ''-'' \<or> hd t = CHR ''+'') then tl t else t);
          digits = filter (\<lambda>c. c \<noteq> CHR ''_'') body
      in if valid_int_body body \<and> length digits \<le> int_max_str_digits
         then Returns ((if neg then - 1 else 1) * dec_value digits)
         else Raises (ValueError s))"

text \<open>Truthiness, as \<open>if x\<close> and \<open>not x\<close> test it.\<close>

fun truthy :: "json \<Rightarrow> bool" where
  "truthy JNull = False"
| "truthy (JBool b) = b"
| "truthy (JInt i) = (i \<noteq> 0)"
| "truthy (JFloat f) = (f \<noteq> 0)"
| "truthy (JStr s) = (s \<noteq> [])"
| "truthy (JArr xs) = (xs \<noteq> [])"
| "truthy (JObj kvs) = (kvs \<noteq> [])"

definition truthy_opt :: "int option \<Rightarrow> bool" where
  "truthy_opt x = (case x of None \<Rightarrow> False | Some i \<Rightarrow> i \<noteq> 0)"

section \<open>The standard library, as a parameter\<close>

text \<open>
  The program calls into \<open>urllib.parse\<close>, \<open>json\<close> and the interpreter's formatting
  of values and exceptions. These are not code of this repository; the model takes them
  as a parameter:
  \<^item> \<open>urlparse\<close>: the \<open>path\<close> and \<open>query\<close> components of \<open>urllib.parse.urlparse(s)\<close>,
    or the exception it raises;
  \<^item> \<open>parse_qs\<close>: \<open>urllib.parse.parse_qs(q)\<close>, a dictionary from names to lists of values;
  \<^item> \<open>json_loads\<close>: \<open>json.loads(s)\<close>;
  \<^item> \<open>repr_other\<close>: \<open>str(v)\<close> for a float, a list or a dictionary;
  \<^item> \<open>exn_text\<close>: \<open>str(e)\<close> for an exception raised by a builtin operation.
\<close>

record pylib =
  urlparse :: "string \<Rightarrow> (string \<times> string) res"
  parse_qs :: "string \<Rightarrow> (string \<times> string list) list res"
  json_loads :: "string \<Rightarrow> json res"
  repr_other :: "json \<Rightarrow> string"
  exn_text :: "exn \<Rightarrow> string"

text \<open>\<open>str(v)\<close>, as an f-string formats a value, and \<open>str(e)\<close> for an exception.\<close>

definition py_str :: "pylib \<Rightarrow> json \<Rightarrow> string" where
  "py_str lib v =
     (case v of
        JNull \<Rightarrow> ''None''
      | JBool b \<Rightarrow> (if b then ''True'' else ''False'')
      | JInt i \<Rightarrow> str_int i
      | JStr s \<Rightarrow> s
      | _ \<Rightarrow> repr_other lib v)"

definition str_exn :: "pylib \<Rightarrow> exn \<Rightarrow> string" where
  "str_exn lib e =
     (case e of
        LibraryError _ msg \<Rightarrow> msg
      | JSONDecodeError msg \<Rightarrow> msg
      | _ \<Rightarrow> exn_text lib e)"

section \<open>Identifier parser\<close>

subsection \<open>The compound pattern\<close>

text \<open>
  \<open>re.search(r'(?:urn:air:sdxl:lora:)?(?:civitai:)?(\d+)@(\d+)', s)\<close>.
  The search tries every start position from the left; at a position, each optional
  group is tried present first and absent second (backtracking), and then the two
  digit groups are matched. A greedy \<open>\d+\<close> followed by \<open>@\<close> can only succeed on the
  whole run of digits: after giving a digit back, the next character is that digit,
  not \<open>@\<close>. The result is the pair of captured groups.
\<close>

fun strip_prefix :: "string \<Rightarrow> string \<Rightarrow> string option" where
  "strip_prefix [] s = Some s"
| "strip_prefix (p # ps) [] = None"
| "strip_prefix (p # ps) (c # cs) = (if p = c then strip_prefix ps cs else None)"

definition optional_prefix :: "string \<Rightarrow> string \<Rightarrow> string list" where
  "optional_prefix p s = (case strip_prefix p s of Some r \<Rightarrow> [r, s] | None \<Rightarrow> [s])"

fun first_match :: "('a \<Rightarrow> 'b option) \<Rightarrow> 'a list \<Rightarrow> 'b option" where
  "first_match f [] = None"
| "first_match f (x # xs) = (case f x of Some y \<Rightarrow> Some y | None \<Rightarrow> first_match f xs)"

definition match_ids :: "string \<Rightarrow> (string \<times> string) option" where
  "match_ids s =
     (let g1 = takeWhile is_decimal s; r = dropWhile is_decimal s
      in if g1 = [] then None
         else (case r of
                 [] \<Rightarrow> None
               | c # r' \<Rightarrow>
                   if c = CHR ''@'' \<and> takeWhile is_decimal r' \<noteq> []
                   then Some (g1, takeWhile is_decimal r')
                   else None))"

definition air_match_at :: "string \<Rightarrow> (string \<times> string) option" where
  "air_match_at s =
     first_match (\<lambda>a. first_match match_ids (optional_prefix ''civitai:'' a))
       (optional_prefix ''urn:air:sdxl:lora:'' s)"

fun air_search :: "string \<Rightarrow> (string \<times> string) option" where
  "air_search [] = air_match_at []"
| "air_search (c # cs) =
     (case air_match_at (c # cs) of Some g \<Rightarrow> Some g | None \<Rightarrow> air_search cs)"

subsection \<open>The URL branch\<close>

text \<open>\<open>xs.index(x)\<close>: the first position of \<open>x\<close>, \<open>ValueError\<close> when absent.\<close>

fun py_index :: "string \<Rightarrow> string list \<Rightarrow> nat res" where
  "py_index x [] = Raises (ValueError x)"
| "py_index x (y # ys) = (if x = y then Returns 0 else map_res Suc (py_index x ys))"

text \<open>
  The source captures a model id and a version id from the path with the same four
  lines, once for \<open>"models"\<close> and once for \<open>"model-versions"\<close>:
  \<^verbatim>\<open>
  if key in path_parts:
      i = path_parts.index(key)
      if i + 1 < len(path_parts) and path_parts[i + 1].isdigit():
          ident = int(path_parts[i + 1])
  \<close>
  \<open>id_after key path_parts ident\<close> is the value of \<open>ident\<close> after them.
\<close>

definition id_after :: "string \<Rightarrow> string list \<Rightarrow> int option \<Rightarrow> int option res" where
  "id_after key path_parts ident =
     (if key \<in> set path_parts
      then bind_res (py_index key path_parts) (\<lambda>i.
             if i + 1 < length path_parts \<and> py_isdigit (path_parts ! (i + 1))
             then map_res Some (py_int (path_parts ! (i + 1)))
             else Returns ident)
      else Returns ident)"

text \<open>The body of the \<open>try\<close> block of \<open>parse_civitai_input\<close>.\<close>

definition parse_url :: "pylib \<Rightarrow> string \<Rightarrow> (int option \<times> int option) res" where
  "parse_url lib url_or_id =
     bind_res (urlparse lib url_or_id) (\<lambda>(path, query).
       let path_parts = filter (\<lambda>p. p \<noteq> []) (py_split (CHR ''/'') path) in
       bind_res (parse_qs lib query) (\<lambda>query_params.
         bind_res
           (case map_of query_params ''modelVersionId'' of
              None \<Rightarrow> Returns None
            | Some vals \<Rightarrow>
                (case vals of
                   [] \<Rightarrow> Raises (IndexError (JArr []))
                 | v # _ \<Rightarrow> map_res Some (py_int v)))
           (\<lambda>version_id.
              bind_res (id_after ''models'' path_parts None) (\<lambda>model_id.
                bind_res
                  (if \<not> truthy_opt version_id
                   then id_after ''model-versions'' path_parts version_id
                   else Returns version_id)
                  (\<lambda>version_id. Returns (model_id, version_id))))))"

subsection \<open>\<open>parse_civitai_input\<close>\<close>

definition parse_civitai_input :: "pylib \<Rightarrow> string \<Rightarrow> (int option \<times> int option) res" where
  "parse_civitai_input lib url_or_id =
     (let s = py_strip url_or_id in
      if s = [] then Returns (None, None)
      else (case air_search s of
              Some (model_id_str, version_id_str) \<Rightarrow>
                bind_res (py_int model_id_str) (\<lambda>m.
                  bind_res (py_int version_id_str) (\<lambda>v. Returns (Some m, Some v)))
            | None \<Rightarrow>
                if py_isdigit s
                then bind_res (py_int s) (\<lambda>m. Returns (Some m, None))
                else (case parse_url lib s of
                        Raises e \<Rightarrow> Returns (None, None)
                      | Returns ids \<Rightarrow> Returns ids)))"

section \<open>Operations on values\<close>

text \<open>
  The program reads the decoded responses with \<open>in\<close>, subscription, \<open>.get\<close> and
  \<open>len\<close>. On a value of the wrong kind each of them raises; the model keeps that.
\<close>

fun is_substring :: "string \<Rightarrow> string \<Rightarrow> bool" where
  "is_substring k [] = (k = [])"
| "is_substring k (c # cs) = (strip_prefix k (c # cs) \<noteq> None \<or> is_substring k cs)"

text \<open>\<open>k in v\<close> for a string \<open>k\<close>: a key of a dictionary, an element of a list, a
  substring of a string.\<close>

definition py_contains :: "string \<Rightarrow> json \<Rightarrow> bool res" where
  "py_contains k v =
     (case v of
        JObj kvs \<Rightarrow> Returns (k \<in> set (map fst kvs))
      | JArr xs \<Rightarrow> Returns (JStr k \<in> set xs)
      | JStr s \<Rightarrow> Returns (is_substring k s)
      | _ \<Rightarrow> Raises (TypeError ''in'' v))"

text \<open>\<open>v[k]\<close> for a string \<open>k\<close>.\<close>

definition py_getitem :: "json \<Rightarrow> string \<Rightarrow> json res" where
  "py_getitem v k =
     (case v of
        JObj kvs \<Rightarrow> (case map_of kvs k of Some x \<Rightarrow> Returns x | None \<Rightarrow> Raises (KeyError (JStr k)))
      | _ \<Rightarrow> Raises (TypeError ''[]'' v))"

text \<open>\<open>v[0]\<close>. The keys of a decoded dictionary are strings, so \<open>0\<close> is never one.\<close>

definition py_getitem_0 :: "json \<Rightarrow> json res" where
  "py_getitem_0 v =
     (case v of
        JArr xs \<Rightarrow> (case xs of [] \<Rightarrow> Raises (IndexError v) | x # _ \<Rightarrow> Returns x)
      | JStr s \<Rightarrow> (case s of [] \<Rightarrow> Raises (IndexError v) | c # _ \<Rightarrow> Returns (JStr [c]))
      | JObj kvs \<Rightarrow> Raises (KeyError (JInt 0))
      | _ \<Rightarrow> Raises (TypeError ''[]'' v))"

text \<open>\<open>v.get(k, d)\<close>: only a dictionary has the method.\<close>

definition py_get :: "json \<Rightarrow> string \<Rightarrow> json \<Rightarrow> json res" where
  "py_get v k d =
     (case v of
        JObj kvs \<Rightarrow> Returns (case map_of kvs k of Some x \<Rightarrow> x | None \<Rightarrow> d)
      | _ \<Rightarrow> Raises (AttributeError ''get'' v))"

definition py_len :: "json \<Rightarrow> nat res" where
  "py_len v =
     (case v of
        JObj kvs \<Rightarrow> Returns (length kvs)
      | JArr xs \<Rightarrow> Returns (length xs)
      | JStr s \<Rightarrow> Returns (length s)
      | _ \<Rightarrow> Raises (TypeError ''len'' v))"

text \<open>Iteration: the elements of a list, the characters of a string, the keys of a
  dictionary.\<close>

definition py_iter :: "json \<Rightarrow> json list res" where
  "py_iter v =
     (case v of
        JArr xs \<Rightarrow> Returns xs
      | JStr s \<Rightarrow> Returns (map (\<lambda>c. JStr [c]) s)
      | JObj kvs \<Rightarrow> Returns (map (\<lambda>kv. JStr (fst kv)) kvs)
      | _ \<Rightarrow> Raises (TypeError ''iter'' v))"

text \<open>\<open>sep.join(xs)\<close>.\<close>

fun py_join :: "string \<Rightarrow> string list \<Rightarrow> string" where
  "py_join sep [] = []"
| "py_join sep [x] = x"
| "py_join sep (x # y # ys) = x @ sep @ py_join sep (y # ys)"

section \<open>Literals of the source\<close>

text \<open>The string literals of the source, verbatim; a character outside printable ASCII
  is written by its code point.\<close>

text \<open>Line 8.\<close>

definition BASE_URL :: string where
  "BASE_URL =
     ''https://civitai.com/api/v1''"

text \<open>Line 82.\<close>

definition msg_no_identifier :: string where
  "msg_no_identifier =
     ''N'' @ [CHR 0xE3] @ ''o foi poss'' @ [CHR 0xED] @
       ''vel extrair um ID de modelo ou vers'' @ [CHR 0xE3] @ ''o v'' @
       [CHR 0xE1] @ ''lido da entrada.''"

text \<open>Line 92, before the version id; a full stop follows it.\<close>

definition msg_model_of_version :: string where
  "msg_model_of_version =
     ''N'' @ [CHR 0xE3] @ ''o foi poss'' @ [CHR 0xED] @
       ''vel encontrar o modelo para a vers'' @ [CHR 0xE3] @ ''o ID ''"

text \<open>Line 96, before the model id; a full stop follows it.\<close>

definition msg_model_fetch :: string where
  "msg_model_fetch =
     ''Falha ao buscar informa'' @ [CHR 0xE7, CHR 0xF5] @ ''es do modelo ID ''"

text \<open>Line 102.\<close>

definition msg_no_version_id :: string where
  "msg_no_version_id =
     ''N'' @ [CHR 0xE3] @ ''o foi poss'' @ [CHR 0xED] @
       ''vel encontrar o ID na vers'' @ [CHR 0xE3] @ ''o mais recente.''"

text \<open>Line 104.\<close>

definition msg_no_versions :: string where
  "msg_no_versions =
     ''O modelo n'' @ [CHR 0xE3] @ ''o tem nenhuma vers'' @ [CHR 0xE3] @
       ''o listada.''"

text \<open>Line 108, before the version id; a full stop follows it.\<close>

definition msg_version_fetch :: string where
  "msg_version_fetch =
     ''Falha ao buscar informa'' @ [CHR 0xE7, CHR 0xF5] @ ''es da vers'' @
       [CHR 0xE3] @ ''o ID ''"

text \<open>Line 111, before the text of the exception.\<close>

definition msg_processing :: string where
  "msg_processing =
     ''Erro ao processar: ''"

text \<open>Line 117.\<close>

definition no_description :: string where
  "no_description =
     ''Nenhuma descri'' @ [CHR 0xE7, CHR 0xE3] @ ''o fornecida.''"

text \<open>Line 170.\<close>

definition msg_llm_no_json :: string where
  "msg_llm_no_json =
     ''Resposta da LLM n'' @ [CHR 0xE3] @ ''o cont'' @ [CHR 0xE9] @
       ''m JSON v'' @ [CHR 0xE1] @ ''lido''"

text \<open>Line 172.\<close>

definition msg_llm_bad_json :: string where
  "msg_llm_bad_json =
     ''Erro ao decodificar JSON da resposta''"

text \<open>Line 174.\<close>

definition msg_llm_unexpected :: string where
  "msg_llm_unexpected =
     ''Resposta inesperada da API''"

text \<open>Line 177, before the text of the exception.\<close>

definition msg_request :: string where
  "msg_request =
     ''Erro na requisi'' @ [CHR 0xE7, CHR 0xE3] @ ''o: ''"

text \<open>Line 179, before the text of the exception.\<close>

definition msg_unexpected :: string where
  "msg_unexpected =
     ''Erro inesperado: ''"

text \<open>Line 256, before the annotation error.\<close>

definition msg_llm :: string where
  "msg_llm =
     ''Erro LLM: ''"

text \<open>Line 271, before the text of the exception.\<close>

definition msg_response :: string where
  "msg_response =
     ''Erro ao processar resposta: ''"

text \<open>Lines 242 to 250.\<close>

definition default_system_prompt :: string where
  "default_system_prompt =
     ''Voc'' @ [CHR 0xEA] @ '' '' @ [CHR 0xE9] @
       '' um assistente especializado em processar informa'' @
       [CHR 0xE7, CHR 0xF5] @ ''es de modelos LORA do CivitAI. '' @
       [CHR 0x0A] @ ''            Analise as informa'' @
       [CHR 0xE7, CHR 0xF5] @
       ''es fornecidas e extraia dados estruturados sobre persona'' @
       ''gens e suas roupas.'' @ [CHR 0x0A] @ ''            '' @ [CHR 0x0A] @
       ''            Retorne APENAS um JSON v'' @ [CHR 0xE1] @
       ''lido com as seguintes chaves:'' @ [CHR 0x0A] @
       ''            - character_name: nome simples do personagem'' @
       '' em lowercase com underscores'' @ [CHR 0x0A] @
       ''            - character_description: caracter'' @ [CHR 0xED] @
       ''sticas f'' @ [CHR 0xED] @ ''sicas b'' @ [CHR 0xE1] @
       ''sicas (sem '' @ [CHR 0x22] @ ''solo'' @ [CHR 0x22] @
       '', sem roupas)'' @ [CHR 0x0A] @
       ''            - s1: todas as roupas separadas por /cut, co'' @
       ''m vers'' @ [CHR 0xE3] @ ''o sem sapatos quando aplic'' @
       [CHR 0xE1] @ ''vel'' @ [CHR 0x0A] @
       ''            - s2: roupa principal /cut _tokenClothing /c'' @
       ''ut _tokenClothing2'' @ [CHR 0x0A] @
       ''            - s3: roupa principal /cut _tokenClothing /c'' @
       ''ut _tokenClothing2''"

text \<open>The fixed parts of the user message, lines 229 to 238, in order.\<close>

definition uc_user_info :: string where
  "uc_user_info =
     ''USER INFO: ''"

definition uc_model :: string where
  "uc_model =
     [CHR 0x0A] @ ''Modelo: ''"

definition uc_version :: string where
  "uc_version =
     [CHR 0x0A] @ ''Vers'' @ [CHR 0xE3] @ ''o: ''"

definition uc_air :: string where
  "uc_air =
     [CHR 0x0A] @ ''ID AIR: civitai:''"

definition uc_description :: string where
  "uc_description =
     [CHR 0x0A] @ ''----------------------------------------'' @ [CHR 0x0A] @
       ''Descri'' @ [CHR 0xE7, CHR 0xE3] @ ''o:'' @ [CHR 0x0A]"

definition uc_words :: string where
  "uc_words =
     [CHR 0x0A] @ ''----------------------------------------'' @ [CHR 0x0A] @
       ''Palavras de Gatilho:'' @ [CHR 0x0A]"

section \<open>The network\<close>

text \<open>
  The two HTTP services are the environment of the program. The model records every
  request the program sends, in order, and takes the services as an oracle: the answer
  to a request may depend on the requests sent before it in the same invocation.

  What \<open>requests\<close> gives back for a \<open>GET\<close> of the metadata service, as
  \<open>CivitaiAPI._request\<close> tells the cases apart:
  \<^item> \<open>GetRaised e\<close>: \<open>requests.request\<close> or \<open>response.json()\<close> raised \<open>e\<close>;
  \<^item> \<open>GetHttpError msg code\<close>: \<open>raise_for_status\<close> raised an \<open>HTTPError\<close> with text
    \<open>msg\<close> for a response of status \<open>code\<close>;
  \<^item> \<open>GetEmpty\<close>: status 204 or an empty body;
  \<^item> \<open>GetJson v\<close>: the decoded body.

  For the \<open>POST\<close> to the completion service, \<open>call_openrouter_api\<close> only separates an
  exception (from \<open>requests.post\<close>, \<open>raise_for_status\<close> or \<open>response.json()\<close>) from
  the decoded body. The request is determined by the token and the two messages; the
  URL, the other headers and the other fields of the body are constants.
\<close>

datatype request = GET string | POST string string string

datatype get_response = GetRaised exn | GetHttpError string int | GetEmpty | GetJson json

datatype post_response = PostRaised exn | PostJson json

record network =
  http_get :: "request list \<Rightarrow> string \<Rightarrow> get_response"
  http_post :: "request list \<Rightarrow> string \<Rightarrow> string \<Rightarrow> string \<Rightarrow> post_response"

definition is_request_exception :: "exn \<Rightarrow> bool" where
  "is_request_exception e = (case e of LibraryError b _ \<Rightarrow> b | _ \<Rightarrow> False)"

section \<open>Model metadata client\<close>

text \<open>
  \<open>CivitaiAPI._request\<close> with method \<open>GET\<close>, on an instance built without an API key
  (the only way the program builds one). The two \<open>print\<close> calls are not modelled. The
  result is paired with the extended list of requests sent.
\<close>

definition api_request :: "network \<Rightarrow> request list \<Rightarrow> string \<Rightarrow> json res \<times> request list" where
  "api_request net sent endpoint =
     (let url = BASE_URL @ ''/'' @ py_lstrip_chars ''/'' endpoint;
          sent' = sent @ [GET url]
      in (case http_get net sent url of
            GetJson v \<Rightarrow> (Returns v, sent')
          | GetEmpty \<Rightarrow> (Returns JNull, sent')
          | GetHttpError msg code \<Rightarrow>
              (Returns (JObj [(''error'', JStr msg), (''status_code'', JInt code)]), sent')
          | GetRaised e \<Rightarrow>
              (if is_request_exception e
               then (Returns (JObj [(''error'', JStr (case e of LibraryError _ msg \<Rightarrow> msg | _ \<Rightarrow> []))]), sent')
               else (Raises e, sent'))))"

definition get_model_info :: "pylib \<Rightarrow> network \<Rightarrow> request list \<Rightarrow> json \<Rightarrow> json res \<times> request list" where
  "get_model_info lib net sent ident = api_request net sent (''/models/'' @ py_str lib ident)"

definition get_model_version_info :: "pylib \<Rightarrow> network \<Rightarrow> request list \<Rightarrow> json \<Rightarrow> json res \<times> request list" where
  "get_model_version_info lib net sent ident =
     api_request net sent (''/model-versions/'' @ py_str lib ident)"

section \<open>Metadata resolver\<close>

subsection \<open>Stripping tags\<close>

text \<open>
  \<open>re.sub('<[^<]+?>', '', s)\<close>. A match starts at a \<open><\<close>, takes one character that is
  not \<open><\<close> (it may be \<open>>\<close>) and then as few characters other than \<open><\<close> as possible up
  to a \<open>>\<close>: it ends at the first \<open>>\<close> from the third character on, provided no \<open><\<close>
  comes before it. \<open>tag_match s\<close> is the text after a match at the start of \<open>s\<close>.
  Matches are removed from left to right, without overlap.
\<close>

definition tag_match :: "string \<Rightarrow> string option" where
  "tag_match s =
     (case s of
        c0 # c1 # r \<Rightarrow>
          if c0 = CHR ''<'' \<and> c1 \<noteq> CHR ''<''
          then (case dropWhile (\<lambda>c. c \<noteq> CHR ''>'' \<and> c \<noteq> CHR ''<'') r of
                  [] \<Rightarrow> None
                | c # r' \<Rightarrow> if c = CHR ''>'' then Some r' else None)
          else None
      | _ \<Rightarrow> None)"

lemma tag_match_shorter: "tag_match s = Some r \<Longrightarrow> length r < length s"
proof -
  assume m: "tag_match s = Some r"
  have le: "length (dropWhile P xs) \<le> length xs" for P and xs :: string
    by (induction xs) auto
  from m obtain c0 c1 t c where s: "s = c0 # c1 # t"
    and d: "dropWhile (\<lambda>c. c \<noteq> CHR ''>'' \<and> c \<noteq> CHR ''<'') t = c # r"
    by (auto simp: tag_match_def split: list.splits if_splits)
  from le [of "\<lambda>c. c \<noteq> CHR ''>'' \<and> c \<noteq> CHR ''<''" t] d have "length r < length t"
    by simp
  with s show ?thesis by simp
qed

function strip_tags :: "string \<Rightarrow> string" where
  "strip_tags [] = []"
| "strip_tags (c # cs) =
     (case tag_match (c # cs) of
        Some r \<Rightarrow> strip_tags r
      | None \<Rightarrow> c # strip_tags cs)"
  by pat_completeness auto
termination
  by (relation "measure length") (auto dest: tag_match_shorter)

declare strip_tags.simps [simp del]

subsection \<open>\<open>get_civitai_details\<close>\<close>

text \<open>The function returns one of two dictionaries: \<open>{"error": msg}\<close> or the bundle
  with the seven keys below.\<close>

record metadata =
  model_name :: json
  version_name :: json
  model_id :: json
  version_id :: json
  air_id :: string
  description :: string
  trained_words :: json

datatype details = Failure string | Bundle metadata

text \<open>Inside the \<open>try\<close> block a step either goes on with a value or leaves the function
  with \<open>return {"error": msg}\<close>.\<close>

datatype 'a step = Next 'a | Return string

text \<open>Lines 87 to 92: with a version id and no model id, the model id is read from the
  version record.\<close>

definition adopt_model_id ::
  "pylib \<Rightarrow> network \<Rightarrow> request list \<Rightarrow> json \<Rightarrow> json \<Rightarrow> json step res \<times> request list" where
  "adopt_model_id lib net sent mid vid =
     (if \<not> truthy mid \<and> truthy vid
      then (case get_model_version_info lib net sent vid of
              (r, sent') \<Rightarrow>
                (bind_res r (\<lambda>temp_version_info.
                   bind_res (if truthy temp_version_info
                             then py_contains ''modelId'' temp_version_info
                             else Returns False) (\<lambda>found.
                     if found
                     then map_res Next (py_getitem temp_version_info ''modelId'')
                     else Returns (Return (msg_model_of_version @ py_str lib vid @ ''.'')))),
                 sent'))
      else (Returns (Next mid), sent))"

text \<open>Lines 94 to 96: the model record.\<close>

definition fetch_model ::
  "pylib \<Rightarrow> network \<Rightarrow> request list \<Rightarrow> json \<Rightarrow> json step res \<times> request list" where
  "fetch_model lib net sent mid =
     (case get_model_info lib net sent mid of
        (r, sent') \<Rightarrow>
          (bind_res r (\<lambda>model_info.
             bind_res (if \<not> truthy model_info then Returns True
                       else py_contains ''error'' model_info) (\<lambda>failed.
               if failed
               then Returns (Return (msg_model_fetch @ py_str lib mid @ ''.''))
               else Returns (Next model_info))),
           sent'))"

text \<open>Lines 98 to 104: without a version id, the id of the first listed version.\<close>

definition default_version :: "json \<Rightarrow> json \<Rightarrow> json step res" where
  "default_version model_info vid =
     (if \<not> truthy vid
      then bind_res (py_get model_info ''modelVersions'' JNull) (\<lambda>versions.
             bind_res (if truthy versions
                       then bind_res (py_getitem model_info ''modelVersions'') (\<lambda>vs.
                              map_res (\<lambda>n. n > 0) (py_len vs))
                       else Returns False) (\<lambda>listed.
               if listed
               then bind_res (py_getitem model_info ''modelVersions'') (\<lambda>vs.
                      bind_res (py_getitem_0 vs) (\<lambda>first.
                        bind_res (py_get first ''id'' JNull) (\<lambda>vid'.
                          if \<not> truthy vid' then Returns (Return msg_no_version_id)
                          else Returns (Next vid'))))
               else Returns (Return msg_no_versions)))
      else Returns (Next vid))"

text \<open>Lines 106 to 108: the version record.\<close>

definition fetch_version ::
  "pylib \<Rightarrow> network \<Rightarrow> request list \<Rightarrow> json \<Rightarrow> json step res \<times> request list" where
  "fetch_version lib net sent vid =
     (case get_model_version_info lib net sent vid of
        (r, sent') \<Rightarrow>
          (bind_res r (\<lambda>version_info.
             bind_res (if \<not> truthy version_info then Returns True
                       else py_contains ''error'' version_info) (\<lambda>failed.
               if failed
               then Returns (Return (msg_version_fetch @ py_str lib vid @ ''.''))
               else Returns (Next version_info))),
           sent'))"

text \<open>The whole \<open>try\<close> block, lines 86 to 108: the two ids and the two records, an early
  return, or an exception.\<close>

definition resolve ::
  "pylib \<Rightarrow> network \<Rightarrow> json \<Rightarrow> json \<Rightarrow> (json \<times> json \<times> json \<times> json) step res \<times> request list" where
  "resolve lib net mid vid =
     (case adopt_model_id lib net [] mid vid of
        (Raises e, sent1) \<Rightarrow> (Raises e, sent1)
      | (Returns (Return msg), sent1) \<Rightarrow> (Returns (Return msg), sent1)
      | (Returns (Next mid'), sent1) \<Rightarrow>
          (case fetch_model lib net sent1 mid' of
             (Raises e, sent2) \<Rightarrow> (Raises e, sent2)
           | (Returns (Return msg), sent2) \<Rightarrow> (Returns (Return msg), sent2)
           | (Returns (Next model_info), sent2) \<Rightarrow>
               (case default_version model_info vid of
                  Raises e \<Rightarrow> (Raises e, sent2)
                | Returns (Return msg) \<Rightarrow> (Returns (Return msg), sent2)
                | Returns (Next vid') \<Rightarrow>
                    (case fetch_version lib net sent2 vid' of
                       (Raises e, sent3) \<Rightarrow> (Raises e, sent3)
                     | (Returns (Return msg), sent3) \<Rightarrow> (Returns (Return msg), sent3)
                     | (Returns (Next version_info), sent3) \<Rightarrow>
                         (Returns (Next (mid', vid', model_info, version_info)), sent3)))))"

text \<open>Lines 113 to 128, after the \<open>try\<close> block: an exception raised here leaves
  \<open>get_civitai_details\<close>.\<close>

definition make_bundle :: "pylib \<Rightarrow> json \<Rightarrow> json \<Rightarrow> json \<Rightarrow> json \<Rightarrow> metadata res" where
  "make_bundle lib mid vid model_info version_info =
     bind_res (py_get model_info ''name'' (JStr ''N/A'')) (\<lambda>mname.
       bind_res (py_get version_info ''name'' (JStr ''N/A'')) (\<lambda>vname.
         bind_res (py_get model_info ''description'' JNull) (\<lambda>description_html.
           bind_res (if truthy description_html
                     then (case description_html of
                             JStr html \<Rightarrow> Returns (py_strip (strip_tags html))
                           | _ \<Rightarrow> Raises (TypeError ''re.sub'' description_html))
                     else Returns no_description) (\<lambda>description_text.
             bind_res (py_get version_info ''trainedWords'' (JArr [])) (\<lambda>words.
               Returns \<lparr> model_name = mname, version_name = vname,
                         model_id = mid, version_id = vid,
                         air_id = py_str lib mid @ ''@'' @ py_str lib vid,
                         description = description_text,
                         trained_words = words \<rparr>)))))"

definition json_of_id :: "int option \<Rightarrow> json" where
  "json_of_id x = (case x of None \<Rightarrow> JNull | Some i \<Rightarrow> JInt i)"

definition get_civitai_details ::
  "pylib \<Rightarrow> network \<Rightarrow> string \<Rightarrow> details res \<times> request list" where
  "get_civitai_details lib net link_ou_id =
     (case parse_civitai_input lib link_ou_id of
        Raises e \<Rightarrow> (Raises e, [])
      | Returns (m, v) \<Rightarrow>
          (if \<not> truthy_opt m \<and> \<not> truthy_opt v then (Returns (Failure msg_no_identifier), [])
           else (case resolve lib net (json_of_id m) (json_of_id v) of
                   (Raises e, sent) \<Rightarrow> (Returns (Failure (msg_processing @ str_exn lib e)), sent)
                 | (Returns (Return msg), sent) \<Rightarrow> (Returns (Failure msg), sent)
                 | (Returns (Next (mid, vid, model_info, version_info)), sent) \<Rightarrow>
                     (map_res Bundle (make_bundle lib mid vid model_info version_info), sent))))"

section \<open>Annotation client\<close>

text \<open>
  \<open>re.search(r'\{.*\}', content, re.DOTALL)\<close> and the text it matched. With
  \<open>DOTALL\<close> the dot matches every character, so from a \<open>{\<close> the greedy \<open>.*\<close> runs
  to the end and backs up to the last \<open>}\<close>; without a \<open>}\<close> after it the search goes
  on at the next position.
\<close>

definition upto_last_brace :: "string \<Rightarrow> string option" where
  "upto_last_brace s =
     (if CHR ''}'' \<in> set s
      then Some (rev (dropWhile (\<lambda>c. c \<noteq> CHR ''}'') (rev s)))
      else None)"

fun brace_search :: "string \<Rightarrow> string option" where
  "brace_search [] = None"
| "brace_search (c # cs) =
     (if c = CHR ''{''
      then (case upto_last_brace cs of
              Some m \<Rightarrow> Some (c # m)
            | None \<Rightarrow> brace_search cs)
      else brace_search cs)"

definition error_dict :: "string \<Rightarrow> json \<Rightarrow> json" where
  "error_dict msg raw = JObj [(''error'', JStr msg), (''raw_response'', raw)]"

text \<open>Lines 164 to 172, the inner \<open>try\<close>: only \<open>json.JSONDecodeError\<close> is caught here.\<close>

definition extract_json :: "pylib \<Rightarrow> json \<Rightarrow> json res" where
  "extract_json lib content =
     (case content of
        JStr text \<Rightarrow>
          (case brace_search text of
             Some matched \<Rightarrow>
               (case json_loads lib matched of
                  Returns v \<Rightarrow> Returns v
                | Raises (JSONDecodeError _) \<Rightarrow> Returns (error_dict msg_llm_bad_json content)
                | Raises e \<Rightarrow> Raises e)
           | None \<Rightarrow> Returns (error_dict msg_llm_no_json content))
      | _ \<Rightarrow> Raises (TypeError ''re.search'' content))"

text \<open>Lines 162 to 174: what is done with the decoded body.\<close>

definition read_completion :: "pylib \<Rightarrow> json \<Rightarrow> json res" where
  "read_completion lib result =
     bind_res (py_contains ''choices'' result) (\<lambda>present.
       bind_res (if present
                 then bind_res (py_getitem result ''choices'') (\<lambda>cs.
                        map_res (\<lambda>n. n > 0) (py_len cs))
                 else Returns False) (\<lambda>nonempty.
         if nonempty
         then bind_res (py_getitem result ''choices'') (\<lambda>cs.
                bind_res (py_getitem_0 cs) (\<lambda>choice.
                  bind_res (py_getitem choice ''message'') (\<lambda>message.
                    bind_res (py_getitem message ''content'') (\<lambda>content.
                      extract_json lib content))))
         else Returns (error_dict msg_llm_unexpected result)))"

definition call_openrouter_api ::
  "pylib \<Rightarrow> network \<Rightarrow> request list \<Rightarrow> string \<Rightarrow> string \<Rightarrow> string \<Rightarrow> json \<times> request list" where
  "call_openrouter_api lib net sent system_prompt user_content api_key =
     (let sent' = sent @ [POST api_key system_prompt user_content];
          outcome = (case http_post net sent api_key system_prompt user_content of
                       PostRaised e \<Rightarrow> Raises e
                     | PostJson result \<Rightarrow> read_completion lib result)
      in (case outcome of
            Returns v \<Rightarrow> (v, sent')
          | Raises e \<Rightarrow>
              (if is_request_exception e
               then (JObj [(''error'', JStr (msg_request @ str_exn lib e))], sent')
               else (JObj [(''error'', JStr (msg_unexpected @ str_exn lib e))], sent'))))"

section \<open>Processing unit\<close>

text \<open>Line 238: one line per trigger word, each \<open>'- ' + word\<close>; the concatenation
  raises on a word that is not a string.\<close>

fun dash_words :: "json list \<Rightarrow> string list res" where
  "dash_words [] = Returns []"
| "dash_words (w # ws) =
     (case w of
        JStr word \<Rightarrow> map_res (\<lambda>rest. (''- '' @ word) # rest) (dash_words ws)
      | _ \<Rightarrow> Raises (TypeError ''+'' w))"

definition trigger_lines :: "json \<Rightarrow> string res" where
  "trigger_lines words =
     bind_res (py_iter words) (\<lambda>ws. map_res (py_join [CHR 0x0A]) (dash_words ws))"

definition user_message :: "pylib \<Rightarrow> string \<Rightarrow> metadata \<Rightarrow> string \<Rightarrow> string" where
  "user_message lib additional_info civitai_data triggers =
     uc_user_info @ additional_info @
     uc_model @ py_str lib (model_name civitai_data) @
     uc_version @ py_str lib (version_name civitai_data) @
     uc_air @ air_id civitai_data @
     uc_description @ description civitai_data @
     uc_words @ triggers"

text \<open>The six outputs, in the order of \<open>RETURN_NAMES\<close>.\<close>

type_synonym outputs = "json \<times> json \<times> json \<times> json \<times> json \<times> json"

definition all_six :: "string \<Rightarrow> outputs" where
  "all_six error_msg =
     (JStr error_msg, JStr error_msg, JStr error_msg, JStr error_msg, JStr error_msg, JStr error_msg)"

text \<open>Lines 260 to 272, the last \<open>try\<close>.\<close>

definition map_outputs :: "pylib \<Rightarrow> metadata \<Rightarrow> json \<Rightarrow> outputs" where
  "map_outputs lib civitai_data llm_response =
     (case
        bind_res (py_get llm_response ''character_name'' (JStr ''unknown_character'')) (\<lambda>character_name.
          bind_res (py_get llm_response ''character_description'' (JStr [])) (\<lambda>character_description.
            bind_res (py_get llm_response ''s1'' (JStr [])) (\<lambda>s1_outfits.
              bind_res (py_get llm_response ''s2'' (JStr [])) (\<lambda>s2_outfit.
                bind_res (py_get llm_response ''s3'' (JStr [])) (\<lambda>s3_outfit.
                  Returns (JStr (air_id civitai_data), character_name, character_description,
                           s1_outfits, s2_outfit, s3_outfit))))))
      of
        Returns out \<Rightarrow> out
      | Raises e \<Rightarrow> all_six (msg_response @ str_exn lib e))"

definition process_civitai_info ::
  "pylib \<Rightarrow> network \<Rightarrow> string \<Rightarrow> string \<Rightarrow> string \<Rightarrow> string \<Rightarrow> outputs res \<times> request list" where
  "process_civitai_info lib net link_or_id openrouter_token additional_info system_prompt =
     (case get_civitai_details lib net link_or_id of
        (Raises e, sent) \<Rightarrow> (Raises e, sent)
      | (Returns (Failure error_msg), sent) \<Rightarrow> (Returns (all_six error_msg), sent)
      | (Returns (Bundle civitai_data), sent) \<Rightarrow>
          (case trigger_lines (trained_words civitai_data) of
             Raises e \<Rightarrow> (Raises e, sent)
           | Returns triggers \<Rightarrow>
               (let user_content = user_message lib additional_info civitai_data triggers;
                    prompt = (if py_strip system_prompt = [] then default_system_prompt
                              else system_prompt)
                in (case call_openrouter_api lib net sent prompt user_content openrouter_token of
                      (llm_response, sent') \<Rightarrow>
                        (bind_res (py_contains ''error'' llm_response) (\<lambda>failed.
                           if failed
                           then map_res (\<lambda>err. all_six (msg_llm @ py_str lib err))
                                  (py_getitem llm_response ''error'')
                           else Returns (map_outputs lib civitai_data llm_response)),
                         sent')))))"

section \<open>Predicates of the statements\<close>

text \<open>\<open>has_compound s\<close>: somewhere in \<open>s\<close> a decimal digit is followed by \<open>@\<close> and a
  decimal digit, that is, \<open>s\<close> contains an occurrence of the pattern
  \<open><digits>@<digits>\<close>.\<close>

fun has_compound :: "string \<Rightarrow> bool" where
  "has_compound (a # b # c # r) =
     (is_decimal a \<and> b = CHR ''@'' \<and> is_decimal c \<or> has_compound (b # c # r))"
| "has_compound _ = False"


section \<open>A library and a network to run the model on\<close>

text \<open>
  The theorems below hold for every library and every network. To evaluate the model on
  concrete inputs, this section fixes one of each.

  The library agrees with CPython's on the texts the examples use:
  \<^item> \<open>ref_urlparse\<close> splits a URL as \<open>urllib.parse.urlsplit\<close> does: an optional scheme
    up to the first \<open>:\<close>, after \<open>//\<close> a network location up to the first of \<open>/?#\<close>,
    then the fragment from the first \<open>#\<close> and the query from the first \<open>?\<close>. It leaves
    out what only matters for other URLs: control characters, bracketed hosts and
    \<open>;\<close> parameters.
  \<^item> \<open>ref_parse_qs\<close> splits a query at \<open>&\<close> and each field at its first \<open>=\<close>, and drops
    the fields without a value; \<open>+\<close> stands for a space. Percent escapes are left
    out.
  \<^item> \<open>ref_json_loads\<close> decodes the three object texts of the examples and reports every
    other text as undecodable.
  \<^item> the two formatting functions are not reached by the examples.
\<close>

definition scheme_chars :: string where
  "scheme_chars = ''abcdefghijklmnopqrstuvwxyzABCDEFGHIJKLMNOPQRSTUVWXYZ0123456789+-.''"

definition after_scheme :: "string \<Rightarrow> string" where
  "after_scheme url =
     (let s = takeWhile (\<lambda>c. c \<noteq> CHR '':'') url;
          r = dropWhile (\<lambda>c. c \<noteq> CHR '':'') url
      in if r \<noteq> [] \<and> s \<noteq> [] \<and> hd s \<in> set (take 52 scheme_chars) \<and>
            list_all (\<lambda>c. c \<in> set scheme_chars) s
         then tl r else url)"

definition ref_urlparse :: "string \<Rightarrow> (string \<times> string) res" where
  "ref_urlparse url =
     (let u = after_scheme url;
          u = (if take 2 u = ''//'' then dropWhile (\<lambda>c. c \<notin> set ''/?#'') (drop 2 u) else u);
          u = takeWhile (\<lambda>c. c \<noteq> CHR ''#'') u
      in Returns (takeWhile (\<lambda>c. c \<noteq> CHR ''?'') u,
                  drop 1 (dropWhile (\<lambda>c. c \<noteq> CHR ''?'') u)))"

fun add_value :: "string \<Rightarrow> string \<Rightarrow> (string \<times> string list) list \<Rightarrow> (string \<times> string list) list" where
  "add_value k v [] = [(k, [v])]"
| "add_value k v ((k', vs) # d) =
     (if k = k' then (k', vs @ [v]) # d else (k', vs) # add_value k v d)"

definition plus_to_space :: "string \<Rightarrow> string" where
  "plus_to_space s = map (\<lambda>c. if c = CHR ''+'' then CHR '' '' else c) s"

definition ref_parse_qs :: "string \<Rightarrow> (string \<times> string list) list res" where
  "ref_parse_qs q =
     Returns (foldl (\<lambda>d field.
                let name = takeWhile (\<lambda>c. c \<noteq> CHR ''='') field;
                    rest = dropWhile (\<lambda>c. c \<noteq> CHR ''='') field
                in if rest = [] \<or> tl rest = [] then d
                   else add_value (plus_to_space name) (plus_to_space (tl rest)) d)
              [] (py_split (CHR ''&'') q))"

definition text_empty_object :: string where
  "text_empty_object = ''{}''"

definition text_named_x :: string where
  "text_named_x = ''{'' @ [CHR 0x22] @ ''character_name'' @ [CHR 0x22] @ '':'' @
                  [CHR 0x22] @ ''x'' @ [CHR 0x22] @ ''}''"

definition text_name_and_s1 :: string where
  "text_name_and_s1 = ''{'' @ [CHR 0x22] @ ''character_name'' @ [CHR 0x22] @ '': '' @
                      [CHR 0x22] @ ''mira'' @ [CHR 0x22] @ '', '' @
                      [CHR 0x22] @ ''s1'' @ [CHR 0x22] @ '': '' @
                      [CHR 0x22] @ ''red dress'' @ [CHR 0x22] @ ''}''"

definition ref_json_loads :: "string \<Rightarrow> json res" where
  "ref_json_loads s =
     (if s = text_empty_object then Returns (JObj [])
      else if s = text_named_x then Returns (JObj [(''character_name'', JStr ''x'')])
      else if s = text_name_and_s1
      then Returns (JObj [(''character_name'', JStr ''mira''), (''s1'', JStr ''red dress'')])
      else Raises (JSONDecodeError []))"

definition ref_lib :: pylib where
  "ref_lib = \<lparr> urlparse = ref_urlparse, parse_qs = ref_parse_qs, json_loads = ref_json_loads,
               repr_other = (\<lambda>v. []), exn_text = (\<lambda>e. []) \<rparr>"

text \<open>
  The network: the metadata service knows model 12 with one version, 34, a version 56
  whose record names no model, and a model 78 without versions; every other address
  is answered with status 404. The completion service answers every request with one
  choice whose message content is the given text.
\<close>

definition ref_http_get :: "request list \<Rightarrow> string \<Rightarrow> get_response" where
  "ref_http_get sent url =
     (if url = ''https://civitai.com/api/v1/models/12''
      then GetJson (JObj [(''name'', JStr ''Mira''),
                          (''description'', JStr ''<p>Hello <b>world</b></p>''),
                          (''modelVersions'', JArr [JObj [(''id'', JInt 34)]])])
      else if url = ''https://civitai.com/api/v1/model-versions/34''
      then GetJson (JObj [(''name'', JStr ''v1''), (''modelId'', JInt 12),
                          (''trainedWords'', JArr [JStr ''mira'', JStr ''red dress''])])
      else if url = ''https://civitai.com/api/v1/model-versions/56''
      then GetJson (JObj [(''name'', JStr ''orphan'')])
      else if url = ''https://civitai.com/api/v1/models/78''
      then GetJson (JObj [(''name'', JStr ''bare''), (''modelVersions'', JArr [])])
      else GetHttpError ''404 Client Error'' 404)"


definition completion :: "string \<Rightarrow> json" where
  "completion text =
     JObj [(''choices'', JArr [JObj [(''message'', JObj [(''role'', JStr ''assistant''),
                                                            (''content'', JStr text)])]])]"

definition ref_net :: "string \<Rightarrow> network" where
  "ref_net text = \<lparr> http_get = ref_http_get,
                    http_post = (\<lambda>sent api_key system_prompt user_content.
                                   PostJson (completion text)) \<rparr>"


section \<open>Properties of the identifier parser\<close>

lemma decimal_not_space: "is_decimal c \<Longrightarrow> \<not> is_space c"
  by (auto simp: is_decimal_def is_space_def)

lemma decimal_not_special:
  "is_decimal c \<Longrightarrow> c \<noteq> CHR ''@'' \<and> c \<noteq> CHR ''_'' \<and> c \<noteq> CHR ''-'' \<and> c \<noteq> CHR ''+'' \<and> c \<noteq> CHR '':''"
  by (auto simp: is_decimal_def)

lemma decimal_not_int_space: "is_decimal c \<Longrightarrow> \<not> is_int_space c"
  by (auto simp: is_decimal_def is_int_space_def)

lemma strip_ends:
  assumes "s \<noteq> []" and "\<not> P (hd s)" and "\<not> P (last s)"
  shows "rev (dropWhile P (rev (dropWhile P s))) = s"
proof -
  from assms have "dropWhile P s = s" "dropWhile P (rev s) = rev s"
    by (simp_all add: dropWhile_eq_self_iff hd_rev)
  then show ?thesis by simp
qed

lemma py_strip_ends: "s \<noteq> [] \<Longrightarrow> \<not> is_space (hd s) \<Longrightarrow> \<not> is_space (last s) \<Longrightarrow> py_strip s = s"
  unfolding py_strip_def by (rule strip_ends)

lemma py_strip_decimal:
  assumes "list_all is_decimal m" shows "py_strip m = m"
proof (cases "m = []")
  case True then show ?thesis by (simp add: py_strip_def)
next
  case False
  then have "hd m \<in> set m" "last m \<in> set m" by simp_all
  with assms have "\<not> is_space (hd m)" "\<not> is_space (last m)"
    using decimal_not_space by (auto simp: list_all_iff)
  with False show ?thesis by (intro py_strip_ends)
qed

lemma int_strip_decimal:
  assumes "list_all is_decimal m" shows "int_strip m = m"
proof (cases "m = []")
  case True then show ?thesis by (simp add: int_strip_def)
next
  case False
  then have "hd m \<in> set m" "last m \<in> set m" by simp_all
  with assms have "\<not> is_int_space (hd m)" "\<not> is_int_space (last m)"
    using decimal_not_int_space by (auto simp: list_all_iff)
  with False show ?thesis unfolding int_strip_def by (intro strip_ends)
qed

lemma py_split_absent: "sep \<notin> set s \<Longrightarrow> py_split sep s = [s]"
  by (induction s) auto

lemma filter_absent: "c \<notin> set xs \<Longrightarrow> filter (\<lambda>x. x \<noteq> c) xs = xs"
  by (induction xs) auto

lemma py_int_body:
  assumes "m \<noteq> []" and "list_all is_decimal m"
  shows "py_int m = (if length m \<le> int_max_str_digits then Returns (dec_value m)
                     else Raises (ValueError m))"
proof -
  have u: "CHR ''_'' \<notin> set m" using assms(2) decimal_not_special by (auto simp: list_all_iff)
  have h: "hd m \<noteq> CHR ''-''" "hd m \<noteq> CHR ''+''"
    using assms decimal_not_special by (cases m; auto)+
  have v: "valid_int_body m" using assms u by (simp add: valid_int_body_def py_split_absent)
  show ?thesis
    using assms(1) h v filter_absent[OF u]
    by (simp add: py_int_def int_strip_decimal[OF assms(2)] Let_def)
qed

lemma py_int_decimal:
  assumes "m \<noteq> []" and "list_all is_decimal m" and "length m \<le> int_max_str_digits"
  shows "py_int m = Returns (dec_value m)"
  using py_int_body[OF assms(1,2)] assms(3) by simp

lemma py_int_over_limit:
  assumes "list_all is_decimal m" and "int_max_str_digits < length m"
  shows "py_int m = Raises (ValueError m)"
proof -
  from assms(2) have "m \<noteq> []" by auto
  from py_int_body[OF this assms(1)] assms(2) show ?thesis by simp
qed

lemma match_ids_no_at: "CHR ''@'' \<notin> set s \<Longrightarrow> match_ids s = None"
proof -
  assume a: "CHR ''@'' \<notin> set s"
  have "set (dropWhile is_decimal s) \<subseteq> set s" by (rule set_dropWhileD[THEN subsetI]) 
  with a have "CHR ''@'' \<notin> set (dropWhile is_decimal s)" by auto
  then show ?thesis by (auto simp: match_ids_def Let_def split: list.splits)
qed

lemma strip_prefix_Some: "strip_prefix p s = Some r \<Longrightarrow> s = p @ r"
  by (induction p s rule: strip_prefix.induct) (auto split: if_splits)

lemma strip_prefix_append: "strip_prefix p (p @ r) = Some r"
  by (induction p) auto

lemma optional_prefixes_cases:
  assumes "first_match (\<lambda>a. first_match f (optional_prefix p2 a)) (optional_prefix p1 s) = Some g"
  shows "\<exists>p r. s = p @ r \<and> f r = Some g \<and> p \<in> {[], p2, p1, p1 @ p2}"
proof -
  have inner: "\<exists>p r. a = p @ r \<and> f r = Some g \<and> p \<in> {[], p2}"
    if "first_match f (optional_prefix p2 a) = Some g" for a
    using that
    by (auto simp: optional_prefix_def split: option.splits dest!: strip_prefix_Some)
  from assms consider
      (present) r where "strip_prefix p1 s = Some r" "first_match f (optional_prefix p2 r) = Some g"
    | (absent) "first_match f (optional_prefix p2 s) = Some g"
    by (auto simp: optional_prefix_def split: option.splits)
  then show ?thesis
  proof cases
    case present
    from inner[OF present(2)] obtain p t where t: "r = p @ t" "f t = Some g" "p \<in> {[], p2}"
      by blast
    from strip_prefix_Some[OF present(1)] t have "s = (p1 @ p) @ t" by simp
    moreover from t(3) have "p1 @ p \<in> {[], p2, p1, p1 @ p2}" by auto
    ultimately show ?thesis using t(2) by blast
  next
    case absent
    from inner[OF absent] show ?thesis by auto
  qed
qed

lemma air_match_at_cases:
  assumes "air_match_at s = Some g"
  shows "\<exists>p r. s = p @ r \<and> match_ids r = Some g \<and> CHR ''@'' \<notin> set p \<and>
           (p = [] \<or> \<not> is_decimal (last p))"
proof -
  from optional_prefixes_cases[OF assms[unfolded air_match_at_def]]
  obtain p r where s: "s = p @ r" and m: "match_ids r = Some g"
    and p: "p \<in> {[], ''civitai:'', ''urn:air:sdxl:lora:'', ''urn:air:sdxl:lora:'' @ ''civitai:''}"
    by blast
  from p have "CHR ''@'' \<notin> set p \<and> (p = [] \<or> \<not> is_decimal (last p))"
    by (auto simp: is_decimal_def)
  with s m show ?thesis by blast
qed

lemma air_match_at_no_at: "CHR ''@'' \<notin> set s \<Longrightarrow> air_match_at s = None"
proof (rule ccontr)
  assume a: "CHR ''@'' \<notin> set s" and "air_match_at s \<noteq> None"
  then obtain g where "air_match_at s = Some g" by auto
  from air_match_at_cases[OF this] obtain p r where "s = p @ r" "match_ids r = Some g" by blast
  with a match_ids_no_at[of r] show False by auto
qed

lemma air_search_no_at: "CHR ''@'' \<notin> set s \<Longrightarrow> air_search s = None"
  by (induction s) (auto simp: air_match_at_no_at)

lemma takeWhile_run:
  "list_all P xs \<Longrightarrow> ys = [] \<or> \<not> P (hd ys) \<Longrightarrow> takeWhile P (xs @ ys) = xs"
  by (cases ys) (auto simp: list_all_iff takeWhile_append2 intro: takeWhile_eq_all_conv[THEN iffD2])

lemma dropWhile_run:
  "list_all P xs \<Longrightarrow> ys = [] \<or> \<not> P (hd ys) \<Longrightarrow> dropWhile P (xs @ ys) = ys"
  by (cases ys) (auto simp: list_all_iff dropWhile_append2)

lemma match_ids_Some:
  assumes "match_ids r = Some (d1, d2)"
  shows "\<exists>rest. r = d1 @ CHR ''@'' # d2 @ rest \<and> d1 \<noteq> [] \<and> list_all is_decimal d1 \<and>
           d2 \<noteq> [] \<and> list_all is_decimal d2 \<and> (rest = [] \<or> \<not> is_decimal (hd rest))"
proof -
  from assms obtain r' where d1: "d1 = takeWhile is_decimal r" "d1 \<noteq> []"
    and r': "dropWhile is_decimal r = CHR ''@'' # r'"
    and d2: "d2 = takeWhile is_decimal r'" "d2 \<noteq> []"
    by (auto simp: match_ids_def Let_def split: list.splits if_splits)
  have "r = d1 @ CHR ''@'' # r'"
    using takeWhile_dropWhile_id[of is_decimal r] d1(1) r' by simp
  moreover have "r' = d2 @ dropWhile is_decimal r'"
    using d2(1) by simp
  moreover have "list_all is_decimal d1" "list_all is_decimal d2"
    using d1(1) d2(1) by (auto simp: list_all_iff dest: set_takeWhileD)
  moreover have "dropWhile is_decimal r' = [] \<or> \<not> is_decimal (hd (dropWhile is_decimal r'))"
    using hd_dropWhile[of is_decimal r'] by blast
  ultimately show ?thesis using d1(2) d2(2) by metis
qed

lemma match_ids_intro:
  assumes "m \<noteq> []" "list_all is_decimal m" "v \<noteq> []" "list_all is_decimal v"
    "post = [] \<or> \<not> is_decimal (hd post)"
  shows "match_ids (m @ CHR ''@'' # v @ post) = Some (m, v)"
proof -
  have at: "\<not> is_decimal (CHR ''@'')" by (simp add: is_decimal_def)
  have 1: "takeWhile is_decimal (m @ CHR ''@'' # v @ post) = m"
    using assms(2) at by (intro takeWhile_run) auto
  have 2: "dropWhile is_decimal (m @ CHR ''@'' # v @ post) = CHR ''@'' # v @ post"
    using assms(2) at by (intro dropWhile_run) auto
  have 3: "takeWhile is_decimal (v @ post) = v"
    using assms(4,5) by (rule takeWhile_run)
  show ?thesis using assms(1,3) by (simp add: match_ids_def 1 2 3)
qed

lemma air_match_at_intro:
  assumes "m \<noteq> []" "list_all is_decimal m" "v \<noteq> []" "list_all is_decimal v"
    "post = [] \<or> \<not> is_decimal (hd post)"
  shows "air_match_at (m @ CHR ''@'' # v @ post) = Some (m, v)"
proof -
  from assms(1,2) obtain c cs where m: "m = c # cs" and c: "is_decimal c"
    by (cases m) auto
  from c have "c \<noteq> CHR ''u''" "c \<noteq> CHR ''c''" by (auto simp: is_decimal_def)
  then have "optional_prefix ''urn:air:sdxl:lora:'' (m @ CHR ''@'' # v @ post) = [m @ CHR ''@'' # v @ post]"
    "optional_prefix ''civitai:'' (m @ CHR ''@'' # v @ post) = [m @ CHR ''@'' # v @ post]"
    by (simp_all add: optional_prefix_def m)
  then show ?thesis using match_ids_intro[OF assms] by (simp add: air_match_at_def)
qed

lemma has_compound_Cons: "has_compound t \<Longrightarrow> has_compound (x # t)"
  by (cases t rule: has_compound.cases) auto

lemma has_compound_append_triple:
  "is_decimal a \<Longrightarrow> is_decimal c \<Longrightarrow> has_compound (xs @ a # CHR ''@'' # c # ys)"
  by (induction xs) (auto intro: has_compound_Cons)

lemma first_compound_match:
  assumes m: "m \<noteq> []" "list_all is_decimal m" and v: "v \<noteq> []" "list_all is_decimal v"
    and q: "q = [] \<or> \<not> is_decimal (last q)"
    and post: "post = [] \<or> \<not> is_decimal (hd post)"
    and first: "\<not> has_compound (q @ m)"
    and found: "air_match_at (q @ m @ CHR ''@'' # v @ post) = Some g"
  shows "g = (m, v)"
proof -
  obtain d1 d2 where g: "g = (d1, d2)" by (cases g)
  from air_match_at_cases[OF found] g obtain p r
    where t: "q @ m @ CHR ''@'' # v @ post = p @ r" and r: "match_ids r = Some (d1, d2)"
      and p: "CHR ''@'' \<notin> set p" "p = [] \<or> \<not> is_decimal (last p)"
    by auto
  from match_ids_Some[OF r] obtain rest
    where r': "r = d1 @ CHR ''@'' # d2 @ rest" and d1: "d1 \<noteq> []" "list_all is_decimal d1"
      and d2: "d2 \<noteq> []" "list_all is_decimal d2" and rest: "rest = [] \<or> \<not> is_decimal (hd rest)"
    by blast
  have at: "\<not> is_decimal (CHR ''@'')" by (simp add: is_decimal_def)
  from d1(2) at have d1_at: "CHR ''@'' \<notin> set d1" by (auto simp: list_all_iff)
  from t r' have eq: "(p @ d1) @ (CHR ''@'' # d2 @ rest) = (q @ m) @ (CHR ''@'' # v @ post)"
    by simp
  from iffD1[OF append_eq_append_conv2 eq] obtain us where
    "(p @ d1 = (q @ m) @ us \<and> us @ (CHR ''@'' # d2 @ rest) = CHR ''@'' # v @ post) \<or>
     ((p @ d1) @ us = q @ m \<and> CHR ''@'' # d2 @ rest = us @ (CHR ''@'' # v @ post))"
    by blast
  then have same: "p @ d1 = q @ m \<and> d2 @ rest = v @ post"
  proof (elim disjE conjE)
    assume a: "p @ d1 = (q @ m) @ us" and b: "us @ (CHR ''@'' # d2 @ rest) = CHR ''@'' # v @ post"
    show ?thesis
    proof (cases us)
      case Nil with a b show ?thesis by simp
    next
      case (Cons u us')
      with b have "u = CHR ''@''" by simp
      with Cons a have "CHR ''@'' \<in> set (p @ d1)" by simp
      with p(1) d1_at show ?thesis by simp
    qed
  next
    assume a: "(p @ d1) @ us = q @ m" and b: "CHR ''@'' # d2 @ rest = us @ (CHR ''@'' # v @ post)"
    show ?thesis
    proof (cases us)
      case Nil with a b show ?thesis by simp
    next
      case (Cons u us')
      with b have u: "u = CHR ''@''" and b': "d2 @ rest = us' @ CHR ''@'' # v @ post" by simp_all
      from d2 obtain x d2' where d2': "d2 = x # d2'" and x: "is_decimal x" by (cases d2) auto
      from b' d2' x at obtain us'' where "us' = x # us''" by (cases us') auto
      from d1 obtain b l where bl: "d1 = b @ [l]" and l: "is_decimal l"
        by (cases d1 rule: rev_cases) auto
      from a Cons u \<open>us' = x # us''\<close> bl
      have "q @ m = (p @ b) @ l # CHR ''@'' # x # us''" by simp
      moreover have "has_compound ((p @ b) @ l # CHR ''@'' # x # us'')"
        by (rule has_compound_append_triple[OF l x])
      ultimately have "has_compound (q @ m)" by (simp only:)
      with first show ?thesis by simp
    qed
  qed
  from same have "takeWhile is_decimal (d2 @ rest) = takeWhile is_decimal (v @ post)" by simp
  with takeWhile_run[OF d2(2) rest] takeWhile_run[OF v(2) post] have "d2 = v" by simp
  moreover
  from same have "rev (p @ d1) = rev (q @ m)" by (simp only:)
  then have "rev d1 @ rev p = rev m @ rev q" by simp
  then have "takeWhile is_decimal (rev d1 @ rev p) = takeWhile is_decimal (rev m @ rev q)" by simp
  moreover have "takeWhile is_decimal (rev d1 @ rev p) = rev d1"
    using d1(2) p(2) by (intro takeWhile_run) (auto simp: hd_rev)
  moreover have "takeWhile is_decimal (rev m @ rev q) = rev m"
    using m(2) q by (intro takeWhile_run) (auto simp: hd_rev)
  ultimately show ?thesis using g by simp
qed

lemma air_search_first_compound:
  assumes "m \<noteq> []" "list_all is_decimal m" "v \<noteq> []" "list_all is_decimal v"
    and "q = [] \<or> \<not> is_decimal (last q)"
    and "post = [] \<or> \<not> is_decimal (hd post)"
    and "\<not> has_compound (q @ m)"
  shows "air_search (q @ m @ CHR ''@'' # v @ post) = Some (m, v)"
  using assms(5,7)
proof (induction q)
  case Nil
  from assms(1) obtain c cs where "m = c # cs" by (cases m) auto
  then show ?case using air_match_at_intro[OF assms(1-4,6)] by simp
next
  case (Cons c q)
  have q: "q = [] \<or> \<not> is_decimal (last q)" using Cons.prems(1) by (auto split: if_splits)
  have nc: "\<not> has_compound (q @ m)" using Cons.prems(2) has_compound_Cons by auto
  show ?case
  proof (cases "air_match_at ((c # q) @ m @ CHR ''@'' # v @ post)")
    case None
    then show ?thesis using Cons.IH[OF q nc] by simp
  next
    case (Some g)
    from first_compound_match[OF assms(1-4) Cons.prems(1) assms(6) Cons.prems(2) Some]
    show ?thesis using Some by simp
  qed
qed

text \<open>
  Claim C2 (the parser is total and never raises). The digit branch tests the trimmed
  input with \<open>str.isdigit\<close> and then converts it with \<open>int\<close>, outside the \<open>try\<close>
  block. \<open>isdigit\<close> accepts the superscript two (U+00B2), \<open>int\<close> does not: on that
  input the parser raises \<open>ValueError\<close> instead of returning a pair, whatever the
  library does.
\<close>

theorem parse_civitai_input_raises_on_superscript:
  "parse_civitai_input lib [CHR 0xB2] = Raises (ValueError [CHR 0xB2])"
  by (simp add: parse_civitai_input_def py_strip_def is_space_def air_match_at_def
      optional_prefix_def match_ids_def is_decimal_def py_isdigit_def is_digit_def
      py_int_def int_strip_def is_int_space_def valid_int_body_def bind_res_def)

lemma all_decimal_replicate: "is_decimal c \<Longrightarrow> list_all is_decimal (replicate n c)"
  by (simp add: list_all_iff)

lemma parse_digits_over_limit:
  assumes "py_strip s = t" and "list_all is_decimal t" and "int_max_str_digits < length t"
  shows "parse_civitai_input lib s = Raises (ValueError t)"
proof -
  from assms(3) have ne: "t \<noteq> []" by auto
  have "CHR ''@'' \<notin> set t" using assms(2) decimal_not_special by (auto simp: list_all_iff)
  then have 1: "air_search t = None" by (rule air_search_no_at)
  have 2: "py_isdigit t" using ne assms(2) by (auto simp: py_isdigit_def is_digit_def list_all_iff)
  show ?thesis
    using assms(1) ne 1 2 py_int_over_limit[OF assms(2,3)]
    by (simp add: parse_civitai_input_def Let_def bind_res_def)
qed

text \<open>
  Claim C6 (a bare number is a model id), as amended. When the trimmed input is a
  non-empty string of at most 4300 decimal digits, the parser returns the number it
  denotes as the model id and no version id; that number is \<open>int\<close> of the trimmed
  input. This holds for every library: the URL branch is not reached.
\<close>

theorem parse_digits_only:
  assumes "py_strip s \<noteq> []" and "list_all is_decimal (py_strip s)"
    and "length (py_strip s) \<le> int_max_str_digits"
  shows "parse_civitai_input lib s = Returns (Some (dec_value (py_strip s)), None) \<and>
         py_int (py_strip s) = Returns (dec_value (py_strip s))"
proof -
  let ?t = "py_strip s"
  have "CHR ''@'' \<notin> set ?t" using assms(2) decimal_not_special by (auto simp: list_all_iff)
  then have 1: "air_search ?t = None" by (rule air_search_no_at)
  have 2: "py_isdigit ?t" using assms by (auto simp: py_isdigit_def is_digit_def list_all_iff)
  have 3: "py_int ?t = Returns (dec_value ?t)" using assms by (rule py_int_decimal)
  have "parse_civitai_input lib s = Returns (Some (dec_value ?t), None)"
    using assms(1) 1 2 3 by (simp add: parse_civitai_input_def Let_def bind_res_def)
  with 3 show ?thesis by simp
qed

theorem parse_digits_only_witness:
  "parse_civitai_input ref_lib ([CHR 0x1C] @ '' 0012345  '') = Returns (Some 12345, None) \<and>
   py_int ''0012345'' = Returns 12345"
  using parse_digits_only[of "[CHR 0x1C] @ '' 0012345  ''" ref_lib]
  by (simp add: py_strip_def is_space_def is_decimal_def dec_value_def digit_value_def
      int_max_str_digits_def)

text \<open>
  The claim as first stated covers every string of digits. A string of 4301 digits is
  digit-only, yet \<open>int\<close> refuses it at line 50, outside the \<open>try\<close> block, and the parser
  raises \<open>ValueError\<close>.
\<close>

theorem parse_long_number_counterexample:
  "parse_civitai_input ref_lib (replicate 4301 (CHR ''7'')) =
     Raises (ValueError (replicate 4301 (CHR ''7'')))"
proof -
  have d: "list_all is_decimal (replicate 4301 (CHR ''7''))"
    by (rule all_decimal_replicate) (simp add: is_decimal_def)
  have l: "int_max_str_digits < length (replicate 4301 (CHR ''7''))"
    by (simp add: int_max_str_digits_def)
  show ?thesis by (rule parse_digits_over_limit[OF py_strip_decimal[OF d] d l])
qed

lemma parse_compound_branch:
  assumes "py_strip s = pre @ pfx @ m @ ''@'' @ v @ post"
    and "pfx \<in> {[], ''civitai:'', ''urn:air:sdxl:lora:'', ''urn:air:sdxl:lora:civitai:''}"
    and "m \<noteq> []" and "list_all is_decimal m"
    and "v \<noteq> []" and "list_all is_decimal v"
    and "pfx = [] \<longrightarrow> pre = [] \<or> \<not> is_decimal (last pre)"
    and "post = [] \<or> \<not> is_decimal (hd post)"
    and "\<not> has_compound (pre @ pfx @ m)"
  shows "parse_civitai_input lib s =
           bind_res (py_int m) (\<lambda>i. bind_res (py_int v) (\<lambda>j. Returns (Some i, Some j)))"
proof -
  let ?q = "pre @ pfx"
  have q: "?q = [] \<or> \<not> is_decimal (last ?q)"
    using assms(2,7) by (auto simp: is_decimal_def)
  have t: "py_strip s = ?q @ m @ CHR ''@'' # v @ post" using assms(1) by simp
  have nc: "\<not> has_compound (?q @ m)" using assms(9) by simp
  have "air_search (py_strip s) = Some (m, v)"
    unfolding t by (rule air_search_first_compound[OF assms(3-6) q assms(8) nc])
  moreover have "py_strip s \<noteq> []" using t by simp
  ultimately show ?thesis by (simp add: parse_civitai_input_def Let_def)
qed

text \<open>
  Claim C5 (the compound pattern wins), as amended. Let the trimmed input read
  \<open>pre pfx m@v post\<close>, where \<open>m\<close> and \<open>v\<close> are whole groups of at most 4300 decimal
  digits, \<open>pfx\<close> is any of the four combinations of the two optional prefixes, and no
  occurrence of \<open><digits>@<digits>\<close> begins before \<open>m\<close>. Then the parser returns
  \<open>(m, v)\<close>, whatever the prefix and whatever the library: neither the plain-integer
  branch nor the URL branch is consulted.
\<close>

theorem parse_compound_first:
  assumes "py_strip s = pre @ pfx @ m @ ''@'' @ v @ post"
    and "pfx \<in> {[], ''civitai:'', ''urn:air:sdxl:lora:'', ''urn:air:sdxl:lora:civitai:''}"
    and "m \<noteq> []" and "list_all is_decimal m"
    and "v \<noteq> []" and "list_all is_decimal v"
    and "pfx = [] \<longrightarrow> pre = [] \<or> \<not> is_decimal (last pre)"
    and "post = [] \<or> \<not> is_decimal (hd post)"
    and "\<not> has_compound (pre @ pfx @ m)"
    and "length m \<le> int_max_str_digits" and "length v \<le> int_max_str_digits"
  shows "parse_civitai_input lib s = Returns (Some (dec_value m), Some (dec_value v))"
  using parse_compound_branch[OF assms(1-9), of lib]
    py_int_decimal[OF assms(3,4,10)] py_int_decimal[OF assms(5,6,11)]
  by (simp add: bind_res_def)

theorem parse_compound_first_witness:
  "parse_civitai_input ref_lib ''  see urn:air:sdxl:lora:civitai:12345@67890, or 1@2 '' =
     Returns (Some 12345, Some 67890)"
  using parse_compound_first[of "''  see urn:air:sdxl:lora:civitai:12345@67890, or 1@2 ''"
      "''see ''" "''urn:air:sdxl:lora:civitai:''" "''12345''" "''67890''" "'', or 1@2''" ref_lib]
  by (simp add: py_strip_def is_space_def is_decimal_def dec_value_def digit_value_def
      int_max_str_digits_def)

text \<open>
  The claim as first stated covers every pair of digit groups. With a model group of
  4301 digits the pattern matches, \<open>int\<close> refuses the group at line 47, outside the
  \<open>try\<close> block, and the parser raises \<open>ValueError\<close>.
\<close>

lemma no_at_no_compound: "CHR ''@'' \<notin> set s \<Longrightarrow> \<not> has_compound s"
  by (induction s rule: has_compound.induct) auto

lemma long_compound_raises:
  assumes "is_decimal c" and "int_max_str_digits < n"
  shows "parse_civitai_input lib (replicate n c @ ''@2'') = Raises (ValueError (replicate n c))"
proof -
  let ?m = "replicate n c"
  from assms(2) have n: "n \<noteq> 0" by auto
  have d: "list_all is_decimal ?m" by (rule all_decimal_replicate[OF assms(1)])
  have two: "is_decimal (CHR ''2'')" by (simp add: is_decimal_def)
  have at: "CHR ''@'' \<notin> set ?m" using d decimal_not_special by (auto simp: list_all_iff)
  have "hd (?m @ ''@2'') = c" using n by (cases n) simp_all
  then have "py_strip (?m @ ''@2'') = ?m @ ''@2''"
    using decimal_not_space[OF assms(1)] decimal_not_space[OF two]
    by (intro py_strip_ends) simp_all
  then have s: "py_strip (?m @ ''@2'') = [] @ [] @ ?m @ ''@'' @ ''2'' @ []" by simp
  have "parse_civitai_input lib (?m @ ''@2'') =
      bind_res (py_int ?m) (\<lambda>i. bind_res (py_int ''2'') (\<lambda>j. Returns (Some i, Some j)))"
    using n d two no_at_no_compound[OF at] by (intro parse_compound_branch[OF s]) simp_all
  then show ?thesis using py_int_over_limit[OF d] assms(2) by (simp add: bind_res_def)
qed

theorem parse_long_compound_counterexample:
  "parse_civitai_input ref_lib (replicate 4301 (CHR ''1'') @ ''@2'') =
     Raises (ValueError (replicate 4301 (CHR ''1'')))"
  by (rule long_compound_raises) (simp_all add: is_decimal_def int_max_str_digits_def)











section \<open>Properties of the resolver and the processing unit\<close>

text \<open>
  Claim C10 (zero counts as absent). For the input \<open>"0"\<close> the parser returns the model
  id 0 and no version id, and \<open>get_civitai_details\<close> returns the error for an input
  without a valid identifier, having sent no request: \<open>not model_id\<close> is true of 0.
\<close>

theorem zero_is_treated_as_absent:
  "parse_civitai_input lib ''0'' = Returns (Some 0, None) \<and>
   get_civitai_details lib net ''0'' = (Returns (Failure msg_no_identifier), [])"
proof -
  have p: "parse_civitai_input lib ''0'' = Returns (Some 0, None)"
    by (simp add: parse_civitai_input_def py_strip_def is_space_def air_match_at_def
        optional_prefix_def match_ids_def is_decimal_def py_isdigit_def is_digit_def
        py_int_def int_strip_def is_int_space_def int_max_str_digits_def valid_int_body_def
        bind_res_def dec_value_def digit_value_def)
  then show ?thesis by (simp add: get_civitai_details_def truthy_opt_def)
qed

text \<open>
  Claim C1 (no exception leaves the processing unit). \<open>process_civitai_info\<close> calls
  \<open>get_civitai_details\<close>, which calls the parser, both outside any \<open>try\<close> block. On the
  input made of the superscript two (U+00B2) the parser raises \<open>ValueError\<close>, and the
  exception leaves \<open>process_civitai_info\<close> before any request is sent, whatever the
  other three inputs, the library and the network are.
\<close>

theorem process_civitai_info_raises_on_superscript:
  "process_civitai_info lib net [CHR 0xB2] openrouter_token additional_info system_prompt =
     (Raises (ValueError [CHR 0xB2]), [])"
proof -
  have "parse_civitai_input lib [CHR 0xB2] = Raises (ValueError [CHR 0xB2])"
    by (simp add: parse_civitai_input_def py_strip_def is_space_def air_match_at_def
        optional_prefix_def match_ids_def is_decimal_def py_isdigit_def is_digit_def
        py_int_def int_strip_def is_int_space_def valid_int_body_def bind_res_def)
  then show ?thesis by (simp add: process_civitai_info_def get_civitai_details_def)
qed








lemma brace_search_found:
  assumes "CHR ''{'' \<notin> set pre" and "CHR ''}'' \<notin> set post"
  shows "brace_search (pre @ CHR ''{'' # body @ CHR ''}'' # post) = Some (CHR ''{'' # body @ ''}'')"
  using assms(1)
proof (induction pre)
  case Nil
  have "dropWhile (\<lambda>c. c \<noteq> CHR ''}'') (rev post @ CHR ''}'' # rev body) = CHR ''}'' # rev body"
    using assms(2) by (intro dropWhile_run) (auto simp: list_all_iff)
  then show ?case by (simp add: upto_last_brace_def)
next
  case (Cons c pre)
  then show ?case by auto
qed

text \<open>
  Claim C9 (the annotation is the brace-delimited part of the message). When the first
  choice's message content reads \<open>pre { body } post\<close>, with no \<open>{\<close> in \<open>pre\<close> and no
  \<open>}\<close> in \<open>post\<close> (so the braces shown are the first \<open>{\<close> and the last \<open>}\<close>, whatever
  \<open>body\<close> holds, line breaks included), and the library decodes \<open>{ body }\<close> to a
  value, \<open>call_openrouter_api\<close> returns that value. The witness is the text of the
  claim, \<open>noise {"character_name":"x"} trailing\<close>.
\<close>

theorem annotation_extracts_braces:
  assumes "http_post net sent api_key system_prompt user_content = PostJson result"
    and "py_getitem result ''choices'' = Returns (JArr (choice # others))"
    and "py_getitem choice ''message'' = Returns message"
    and "py_getitem message ''content'' = Returns (JStr (pre @ ''{'' @ body @ ''}'' @ post))"
    and "CHR ''{'' \<notin> set pre" and "CHR ''}'' \<notin> set post"
    and "json_loads lib (''{'' @ body @ ''}'') = Returns obj"
  shows "call_openrouter_api lib net sent system_prompt user_content api_key =
           (obj, sent @ [POST api_key system_prompt user_content])"
proof -
  from assms(2) have c: "py_contains ''choices'' result = Returns True"
    by (auto simp: py_getitem_def py_contains_def split: json.splits option.splits
        dest: map_of_SomeD intro: rev_image_eqI)
  have "extract_json lib (JStr (pre @ ''{'' @ body @ ''}'' @ post)) = Returns obj"
    using assms(7) brace_search_found[OF assms(5,6), of body] by (simp add: extract_json_def)
  then have "read_completion lib result = Returns obj"
    using c assms(2-4)
    by (simp add: read_completion_def bind_res_def map_res_def py_len_def py_getitem_0_def)
  then show ?thesis using assms(1) by (simp add: call_openrouter_api_def Let_def)
qed

theorem annotation_extracts_braces_witness:
  "call_openrouter_api ref_lib (ref_net (''noise '' @ text_named_x @ '' trailing'')) []
       ''system'' ''user'' ''tk'' =
     (JObj [(''character_name'', JStr ''x'')], [POST ''tk'' ''system'' ''user''])"
  using annotation_extracts_braces[where lib = ref_lib
      and net = "ref_net (''noise '' @ text_named_x @ '' trailing'')" and sent = "[]"
      and api_key = "''tk''" and system_prompt = "''system''" and user_content = "''user''"
      and result = "completion (''noise '' @ text_named_x @ '' trailing'')"
      and choice = "JObj [(''message'', JObj [(''role'', JStr ''assistant''),
                      (''content'', JStr (''noise '' @ text_named_x @ '' trailing''))])]"
      and others = "[]"
      and message = "JObj [(''role'', JStr ''assistant''),
                      (''content'', JStr (''noise '' @ text_named_x @ '' trailing''))]"
      and pre = "''noise ''"
      and body = "[CHR 0x22] @ ''character_name'' @ [CHR 0x22] @ '':'' @ [CHR 0x22] @ ''x'' @ [CHR 0x22]"
      and post = "'' trailing''"
      and obj = "JObj [(''character_name'', JStr ''x'')]"]
  by (simp add: ref_net_def completion_def py_getitem_def ref_lib_def ref_json_loads_def
      text_named_x_def text_empty_object_def)















text \<open>
  Claim C4 (the annotation fills the outputs), as amended. When the resolver returns a
  bundle and the annotation client returns a dictionary without an \<open>error\<close> key, the
  first output is the bundle's \<open>air_id\<close> and the other five are the values of
  \<open>character_name\<close>, \<open>character_description\<close>, \<open>s1\<close>, \<open>s2\<close> and \<open>s3\<close> in that
  dictionary. An absent \<open>character_name\<close> is replaced by the string
  \<open>unknown_character\<close>; each of the other four, when absent, by the empty string.
\<close>

theorem annotation_mapped_to_outputs:
  assumes "get_civitai_details lib net link_or_id = (Returns (Bundle civitai_data), sent)"
    and "trigger_lines (trained_words civitai_data) = Returns triggers"
    and "call_openrouter_api lib net sent
           (if py_strip system_prompt = [] then default_system_prompt else system_prompt)
           (user_message lib additional_info civitai_data triggers) openrouter_token =
         (JObj annotation, sent')"
    and "''error'' \<notin> fst ` set annotation"
  shows "process_civitai_info lib net link_or_id openrouter_token additional_info system_prompt =
           (Returns
              (JStr (air_id civitai_data),
               (case map_of annotation ''character_name'' of
                  Some x \<Rightarrow> x | None \<Rightarrow> JStr ''unknown_character''),
               (case map_of annotation ''character_description'' of
                  Some x \<Rightarrow> x | None \<Rightarrow> JStr []),
               (case map_of annotation ''s1'' of Some x \<Rightarrow> x | None \<Rightarrow> JStr []),
               (case map_of annotation ''s2'' of Some x \<Rightarrow> x | None \<Rightarrow> JStr []),
               (case map_of annotation ''s3'' of Some x \<Rightarrow> x | None \<Rightarrow> JStr [])),
            sent')"
proof -
  have c: "py_contains ''error'' (JObj annotation) = Returns False"
    using assms(4) by (simp add: py_contains_def)
  have m: "map_outputs lib civitai_data (JObj annotation) =
      (JStr (air_id civitai_data),
       (case map_of annotation ''character_name'' of
          Some x \<Rightarrow> x | None \<Rightarrow> JStr ''unknown_character''),
       (case map_of annotation ''character_description'' of Some x \<Rightarrow> x | None \<Rightarrow> JStr []),
       (case map_of annotation ''s1'' of Some x \<Rightarrow> x | None \<Rightarrow> JStr []),
       (case map_of annotation ''s2'' of Some x \<Rightarrow> x | None \<Rightarrow> JStr []),
       (case map_of annotation ''s3'' of Some x \<Rightarrow> x | None \<Rightarrow> JStr []))"
    by (simp add: map_outputs_def py_get_def bind_res_def)
  show ?thesis
    using assms(1-3) by (simp add: process_civitai_info_def Let_def c m bind_res_def)
qed

theorem annotation_mapped_to_outputs_witness:
  "fst (process_civitai_info ref_lib (ref_net (''Sure: '' @ text_name_and_s1)) ''12'' ''tk''
          ''info'' ''  '') =
     Returns (JStr ''12@34'', JStr ''mira'', JStr [], JStr ''red dress'', JStr [], JStr [])"
proof -
  let ?net = "ref_net (''Sure: '' @ text_name_and_s1)"
  let ?b = "\<lparr>model_name = JStr ''Mira'', version_name = JStr ''v1'',
        model_id = JInt 12, version_id = JInt 34, air_id = ''12@34'',
        description = ''Hello world'',
        trained_words = JArr [JStr ''mira'', JStr ''red dress'']\<rparr>"
  let ?sent = "[GET ''https://civitai.com/api/v1/models/12'',
       GET ''https://civitai.com/api/v1/model-versions/34'']"
  let ?triggers = "''- mira'' @ [CHR 0x0A] @ ''- red dress''"
  have run: "get_civitai_details ref_lib ?net ''12'' = (Returns (Bundle ?b), ?sent)"
    by code_simp
  have tr: "trigger_lines (trained_words ?b) = Returns ?triggers"
    by code_simp
  have "fst (call_openrouter_api ref_lib ?net ?sent
           (if py_strip ''  '' = [] then default_system_prompt else ''  '')
           (user_message ref_lib ''info'' ?b ?triggers) ''tk'') =
        JObj [(''character_name'', JStr ''mira''), (''s1'', JStr ''red dress'')]"
    by code_simp
  then obtain sent' where call: "call_openrouter_api ref_lib ?net ?sent
           (if py_strip ''  '' = [] then default_system_prompt else ''  '')
           (user_message ref_lib ''info'' ?b ?triggers) ''tk'' =
        (JObj [(''character_name'', JStr ''mira''), (''s1'', JStr ''red dress'')], sent')"
    by (metis prod.collapse)
  from annotation_mapped_to_outputs[OF run tr call] show ?thesis by simp
qed

text \<open>
  The claim as first stated gives the empty string for every absent key. With the
  annotation \<open>{}\<close> the second output is \<open>unknown_character\<close>.
\<close>

theorem missing_character_name_counterexample:
  "fst (process_civitai_info ref_lib (ref_net text_empty_object) ''civitai:12@34'' ''tk'' [] []) =
     Returns (JStr ''12@34'', JStr ''unknown_character'', JStr [], JStr [], JStr [], JStr []) \<and>
   JStr ''unknown_character'' \<noteq> JStr []"
  by code_simp

end
